theory Spec2Isabelle
  imports Complex_Main "HOL-Library.Word"
begin

section \<open>JavaScript strings\<close>

text \<open>
  A JavaScript string is a sequence of 16-bit code units. The regular expressions of the
  two forms carry no \<open>u\<close> flag, so they too work on code units. A literal of the source
  is written \<open>js ''...''\<close>.
\<close>

type_synonym code_unit = "16 word"
type_synonym js_string = "code_unit list"

definition js :: "string \<Rightarrow> js_string" where
  "js s = map of_char s"

definition is_digit :: "code_unit \<Rightarrow> bool" where
  \<comment> \<open>\<open>\d\<close> and \<open>[0-9]\<close>\<close>
  "is_digit c = (0x30 \<le> c \<and> c \<le> 0x39)"

definition is_lower :: "code_unit \<Rightarrow> bool" where
  \<comment> \<open>\<open>[a-z]\<close>\<close>
  "is_lower c = (0x61 \<le> c \<and> c \<le> 0x7A)"

definition is_upper :: "code_unit \<Rightarrow> bool" where
  \<comment> \<open>\<open>[A-Z]\<close>\<close>
  "is_upper c = (0x41 \<le> c \<and> c \<le> 0x5A)"

definition is_white_space :: "code_unit \<Rightarrow> bool" where
  \<comment> \<open>\<open>\s\<close>, and the StrWhiteSpaceChar of \<open>Number\<close>: WhiteSpace and LineTerminator\<close>
  "is_white_space c =
     (c = 0x09 \<or> c = 0x0A \<or> c = 0x0B \<or> c = 0x0C \<or> c = 0x0D \<or> c = 0x20 \<or> c = 0xA0
      \<or> c = 0x1680 \<or> (0x2000 \<le> c \<and> c \<le> 0x200A) \<or> c = 0x2028 \<or> c = 0x2029
      \<or> c = 0x202F \<or> c = 0x205F \<or> c = 0x3000 \<or> c = 0xFEFF)"

section \<open>JavaScript numbers\<close>

text \<open>
  A Number is an IEEE-754 double: not-a-number, an infinity, or a finite value, given
  here by its sign bit (\<open>True\<close> is negative) and its magnitude, so that the two zeros
  are told apart. The result of an operation on finite values is rounded to the nearest
  double, ties to even, by \<open>round_double\<close>.
\<close>

datatype number = NaN | Infinity bool | Finite bool rat

definition pow2 :: "int \<Rightarrow> rat" where
  "pow2 e = (if 0 \<le> e then of_int (2 ^ nat e) else 1 / of_int (2 ^ nat (- e)))"

function bit_length :: "int \<Rightarrow> int" where
  \<comment> \<open>the number of binary digits of a positive integer\<close>
  "bit_length n = (if n \<le> 0 then 0 else 1 + bit_length (n div 2))"
  by pat_completeness auto
termination
  by (relation "measure nat") auto

definition ilog2 :: "rat \<Rightarrow> int" where
  \<comment> \<open>for \<open>0 < x\<close>, the \<open>e\<close> with \<open>2 ^ e \<le> x < 2 ^ (e + 1)\<close>\<close>
  "ilog2 x =
     (let (a, b) = quotient_of x;
          d = bit_length a - bit_length b
      in if pow2 d \<le> x then d else d - 1)"

definition round_half_even :: "rat \<Rightarrow> int" where
  "round_half_even x =
     (let f = \<lfloor>x\<rfloor>; d = x - of_int f
      in if d < 1 / 2 then f else if 1 / 2 < d then f + 1
         else if even f then f else f + 1)"

definition round_double :: "rat \<Rightarrow> rat option" where
  \<comment> \<open>the double nearest to a magnitude \<open>0 \<le> x\<close>; \<open>None\<close> when it overflows\<close>
  "round_double x =
     (if x = 0 then Some 0
      else let q = max (ilog2 x - 52) (- 1074);
               y = of_int (round_half_even (x / pow2 q)) * pow2 q
           in if of_int (2 ^ 1024) \<le> y then None else Some y)"

definition finite_result :: "bool \<Rightarrow> rat \<Rightarrow> number" where
  "finite_result sg x =
     (case round_double x of None \<Rightarrow> Infinity sg | Some y \<Rightarrow> Finite sg y)"

definition plus_zero :: number where
  "plus_zero = Finite False 0"

fun js_mul :: "number \<Rightarrow> number \<Rightarrow> number" where
  \<comment> \<open>\<open>x * y\<close>\<close>
  "js_mul NaN _ = NaN"
| "js_mul _ NaN = NaN"
| "js_mul (Infinity s) (Infinity t) = Infinity (s \<noteq> t)"
| "js_mul (Infinity s) (Finite t n) = (if n = 0 then NaN else Infinity (s \<noteq> t))"
| "js_mul (Finite s m) (Infinity t) = (if m = 0 then NaN else Infinity (s \<noteq> t))"
| "js_mul (Finite s m) (Finite t n) = finite_result (s \<noteq> t) (m * n)"

fun js_div :: "number \<Rightarrow> number \<Rightarrow> number" where
  \<comment> \<open>\<open>x / y\<close>\<close>
  "js_div NaN _ = NaN"
| "js_div _ NaN = NaN"
| "js_div (Infinity s) (Infinity t) = NaN"
| "js_div (Infinity s) (Finite t n) = Infinity (s \<noteq> t)"
| "js_div (Finite s m) (Infinity t) = Finite (s \<noteq> t) 0"
| "js_div (Finite s m) (Finite t n) =
     (if n = 0 then (if m = 0 then NaN else Infinity (s \<noteq> t))
      else finite_result (s \<noteq> t) (m / n))"

definition signed_value :: "bool \<Rightarrow> rat \<Rightarrow> rat" where
  "signed_value sg m = (if sg then - m else m)"

fun js_le :: "number \<Rightarrow> number \<Rightarrow> bool" where
  \<comment> \<open>\<open>x <= y\<close>: false when either side is \<open>NaN\<close>\<close>
  "js_le NaN _ = False"
| "js_le _ NaN = False"
| "js_le (Infinity s) (Infinity t) = (s \<or> \<not> t)"
| "js_le (Infinity s) (Finite t n) = s"
| "js_le (Finite s m) (Infinity t) = (\<not> t)"
| "js_le (Finite s m) (Finite t n) = (signed_value s m \<le> signed_value t n)"

fun truthy_number :: "number \<Rightarrow> bool" where
  \<comment> \<open>ToBoolean: \<open>NaN\<close>, \<open>+0\<close> and \<open>-0\<close> are falsy\<close>
  "truthy_number NaN = False"
| "truthy_number (Infinity s) = True"
| "truthy_number (Finite s m) = (m \<noteq> 0)"

definition or_number :: "number \<Rightarrow> number \<Rightarrow> number" where
  \<comment> \<open>\<open>x || y\<close> on two numbers\<close>
  "or_number x y = (if truthy_number x then x else y)"

subsection \<open>\<open>Number(string)\<close>\<close>

text \<open>
  StringToNumber: white space is trimmed; the empty string is \<open>+0\<close>; a binary, octal or
  hexadecimal integer literal has no sign; a decimal literal has an optional sign, and is
  \<open>Infinity\<close> or digits with an optional fraction and exponent; anything else is \<open>NaN\<close>.
\<close>

definition trim :: "js_string \<Rightarrow> js_string" where
  "trim w = rev (dropWhile is_white_space (rev (dropWhile is_white_space w)))"

definition digit_value :: "code_unit \<Rightarrow> nat option" where
  "digit_value c =
     (if is_digit c then Some (unat c - 0x30)
      else if 0x61 \<le> c \<and> c \<le> 0x66 then Some (unat c - 0x61 + 10)
      else if 0x41 \<le> c \<and> c \<le> 0x46 then Some (unat c - 0x41 + 10)
      else None)"

definition is_radix_digit :: "nat \<Rightarrow> code_unit \<Rightarrow> bool" where
  "is_radix_digit b c = (case digit_value c of None \<Rightarrow> False | Some d \<Rightarrow> d < b)"

definition radix_value :: "nat \<Rightarrow> js_string \<Rightarrow> int" where
  "radix_value b w =
     foldl (\<lambda>a c. int b * a + (case digit_value c of None \<Rightarrow> 0 | Some d \<Rightarrow> int d)) 0 w"

definition pow10 :: "int \<Rightarrow> rat" where
  "pow10 e = (if 0 \<le> e then of_int (10 ^ nat e) else 1 / of_int (10 ^ nat (- e)))"

definition mantissa :: "js_string \<Rightarrow> (int \<times> nat) option" where
  \<comment> \<open>\<open>d+\<close>, \<open>d+.d*\<close> or \<open>.d+\<close>: the digits read as one integer, and the number of
      fraction digits\<close>
  "mantissa w =
     (let ip = takeWhile is_digit w; r = dropWhile is_digit w
      in case r of
           [] \<Rightarrow> (if ip = [] then None else Some (radix_value 10 ip, 0))
         | c # fp \<Rightarrow>
             (if c = 0x2E \<and> list_all is_digit fp \<and> (ip \<noteq> [] \<or> fp \<noteq> [])
              then Some (radix_value 10 (ip @ fp), length fp) else None))"

definition exponent :: "js_string \<Rightarrow> int option" where
  \<comment> \<open>what follows \<open>e\<close> or \<open>E\<close>: an optional sign and at least one digit\<close>
  "exponent w =
     (let (neg, ds) = (case w of
                         [] \<Rightarrow> (False, [])
                       | c # r \<Rightarrow> if c = 0x2D then (True, r)
                                  else if c = 0x2B then (False, r) else (False, w))
      in if ds \<noteq> [] \<and> list_all is_digit ds
         then Some (if neg then - radix_value 10 ds else radix_value 10 ds)
         else None)"

definition unsigned_decimal :: "bool \<Rightarrow> js_string \<Rightarrow> number" where
  "unsigned_decimal sg w =
     (if w = js ''Infinity'' then Infinity sg
      else let m = takeWhile (\<lambda>c. c \<noteq> 0x65 \<and> c \<noteq> 0x45) w;
               r = dropWhile (\<lambda>c. c \<noteq> 0x65 \<and> c \<noteq> 0x45) w
           in case mantissa m of
                None \<Rightarrow> NaN
              | Some (v, k) \<Rightarrow>
                  (case r of
                     [] \<Rightarrow> finite_result sg (of_int v * pow10 (- int k))
                   | _ # x \<Rightarrow>
                       (case exponent x of
                          None \<Rightarrow> NaN
                        | Some e \<Rightarrow> finite_result sg (of_int v * pow10 (e - int k)))))"

definition radix_literal :: "nat \<Rightarrow> js_string \<Rightarrow> number" where
  "radix_literal b w =
     (if w \<noteq> [] \<and> list_all (is_radix_digit b) w
      then finite_result False (of_int (radix_value b w)) else NaN)"

definition Number :: "js_string \<Rightarrow> number" where
  "Number s =
     (case trim s of
        [] \<Rightarrow> plus_zero
      | c # r \<Rightarrow>
          if c = 0x30 \<and> r \<noteq> [] \<and> (hd r = 0x78 \<or> hd r = 0x58) then radix_literal 16 (tl r)
          else if c = 0x30 \<and> r \<noteq> [] \<and> (hd r = 0x6F \<or> hd r = 0x4F) then radix_literal 8 (tl r)
          else if c = 0x30 \<and> r \<noteq> [] \<and> (hd r = 0x62 \<or> hd r = 0x42) then radix_literal 2 (tl r)
          else if c = 0x2D then unsigned_decimal True r
          else if c = 0x2B then unsigned_decimal False r
          else unsigned_decimal False (c # r))"

section \<open>Regular expressions\<close>

text \<open>
  The patterns of the two forms use character classes, concatenation, alternation and the
  quantifiers \<open>*\<close>, \<open>+\<close>, \<open>?\<close> and \<open>{m,n}\<close>, and each is anchored by \<open>^\<close> and \<open>$\<close>
  with no flag. \<open>value.match(pattern)\<close> is then non-null exactly when the whole of
  \<open>value\<close> is matched, which \<open>rx_match\<close> decides by derivatives.
\<close>

datatype regex =
    Never
  | Epsilon
  | Cls "code_unit \<Rightarrow> bool"
  | Seq regex regex
  | Alt regex regex
  | Star regex

definition Plus :: "regex \<Rightarrow> regex" where
  \<comment> \<open>\<open>r+\<close>\<close>
  "Plus r = Seq r (Star r)"

definition Opt :: "regex \<Rightarrow> regex" where
  \<comment> \<open>\<open>r?\<close>\<close>
  "Opt r = Alt r Epsilon"

fun Rep :: "nat \<Rightarrow> nat \<Rightarrow> regex \<Rightarrow> regex" where
  \<comment> \<open>\<open>r{m,n}\<close>\<close>
  "Rep 0 0 r = Epsilon"
| "Rep 0 (Suc n) r = Alt Epsilon (Seq r (Rep 0 n r))"
| "Rep (Suc m) n r = Seq r (Rep m (n - 1) r)"

fun nullable :: "regex \<Rightarrow> bool" where
  "nullable Never = False"
| "nullable Epsilon = True"
| "nullable (Cls P) = False"
| "nullable (Seq r s) = (nullable r \<and> nullable s)"
| "nullable (Alt r s) = (nullable r \<or> nullable s)"
| "nullable (Star r) = True"

fun deriv :: "code_unit \<Rightarrow> regex \<Rightarrow> regex" where
  "deriv c Never = Never"
| "deriv c Epsilon = Never"
| "deriv c (Cls P) = (if P c then Epsilon else Never)"
| "deriv c (Seq r s) =
     (if nullable r then Alt (Seq (deriv c r) s) (deriv c s) else Seq (deriv c r) s)"
| "deriv c (Alt r s) = Alt (deriv c r) (deriv c s)"
| "deriv c (Star r) = Seq (deriv c r) (Star r)"

fun rx_match :: "regex \<Rightarrow> js_string \<Rightarrow> bool" where
  "rx_match r [] = nullable r"
| "rx_match r (c # w) = rx_match (deriv c r) w"

text \<open>The strings a pattern denotes, against which the matcher is checked.\<close>

inductive_set star :: "js_string set \<Rightarrow> js_string set" for A :: "js_string set" where
  star_empty: "[] \<in> star A"
| star_step: "u \<in> A \<Longrightarrow> v \<in> star A \<Longrightarrow> u @ v \<in> star A"

fun rx_lang :: "regex \<Rightarrow> js_string set" where
  "rx_lang Never = {}"
| "rx_lang Epsilon = {[]}"
| "rx_lang (Cls P) = {w. \<exists>c. w = [c] \<and> P c}"
| "rx_lang (Seq r s) = {w. \<exists>u v. w = u @ v \<and> u \<in> rx_lang r \<and> v \<in> rx_lang s}"
| "rx_lang (Alt r s) = rx_lang r \<union> rx_lang s"
| "rx_lang (Star r) = star (rx_lang r)"

section \<open>The KYC address form\<close>

text \<open>
  \<open>AddressComponent\<close> of \<open>containers/Confirm/Address/index.tsx\<close>. A handler takes the
  component's state and returns the state after its \<open>setState\<close>; a handler that calls
  a callback of the props returns the calls it makes, in order.
\<close>

datatype File = File (name: js_string)

record State =
  country :: js_string
  address :: js_string
  addressFocused :: bool
  city :: js_string
  cityFocused :: bool
  postcode :: js_string
  postcodeFocused :: bool
  fileScan :: "File list"

record Props =
  lang :: js_string
  success :: "js_string option"

definition initialState :: State where
  "initialState =
     \<lparr> country = [], address = [], addressFocused = False, city = [],
       cityFocused = False, postcode = [], postcodeFocused = False, fileScan = [] \<rparr>"

text \<open>
  \<open>FormData\<close>: the entries in the order they were appended. \<open>append\<close> stores a
  \<open>File\<close> as it is and turns any other value into a string, \<open>undefined\<close> into
  \<open>"undefined"\<close>.
\<close>

datatype FormDataEntryValue = EntryFile File | EntryString js_string

type_synonym FormData = "(js_string \<times> FormDataEntryValue) list"

definition append_entry :: "FormData \<Rightarrow> js_string \<Rightarrow> FormDataEntryValue \<Rightarrow> FormData" where
  "append_entry request key v = request @ [(key, v)]"

definition append_file :: "FormData \<Rightarrow> js_string \<Rightarrow> File option \<Rightarrow> FormData" where
  "append_file request key f =
     append_entry request key
       (case f of None \<Rightarrow> EntryString (js ''undefined'') | Some x \<Rightarrow> EntryFile x)"

definition index0 :: "'a list \<Rightarrow> 'a option" where
  \<comment> \<open>\<open>xs[0]\<close>, \<open>undefined\<close> on the empty array\<close>
  "index0 xs = (case xs of [] \<Rightarrow> None | x # _ \<Rightarrow> Some x)"

definition handleChange :: "js_string \<Rightarrow> js_string \<Rightarrow> State \<Rightarrow> State option" where
  \<comment> \<open>\<open>setState({[key]: value})\<close> with a string \<open>value\<close>. A key that is not a string
      field of \<open>State\<close> would retype a field or add a property: \<open>None\<close>.\<close>
  "handleChange v key s =
     (if key = js ''address'' then Some (s\<lparr>address := v\<rparr>)
      else if key = js ''city'' then Some (s\<lparr>city := v\<rparr>)
      else if key = js ''postcode'' then Some (s\<lparr>postcode := v\<rparr>)
      else if key = js ''country'' then Some (s\<lparr>country := v\<rparr>)
      else None)"

definition handleFieldFocus :: "js_string \<Rightarrow> State \<Rightarrow> State" where
  "handleFieldFocus field s =
     (if field = js ''address'' then s\<lparr>addressFocused := \<not> addressFocused s\<rparr>
      else if field = js ''city'' then s\<lparr>cityFocused := \<not> cityFocused s\<rparr>
      else if field = js ''postcode'' then s\<lparr>postcodeFocused := \<not> postcodeFocused s\<rparr>
      else s)"

definition selectCountry ::
  "(js_string \<Rightarrow> js_string \<Rightarrow> js_string) \<Rightarrow> Props \<Rightarrow> js_string \<Rightarrow> State \<Rightarrow> State" where
  \<comment> \<open>\<open>getAlpha2Code\<close> belongs to the library \<open>i18n-iso-countries\<close>\<close>
  "selectCountry getAlpha2Code p v s = s\<lparr>country := getAlpha2Code v (lang p)\<rparr>"

definition maxDocsCount :: nat where
  "maxDocsCount = 1"

definition handleUploadScan :: "File list \<Rightarrow> js_string \<Rightarrow> State \<Rightarrow> State" where
  \<comment> \<open>\<open>allFiles\<close> is \<open>uploadEvent.target.files\<close>; \<open>slice(0, n)\<close> is \<open>take n\<close>\<close>
  "handleUploadScan allFiles id' s =
     (let additionalFileList =
            (if length allFiles > maxDocsCount then take maxDocsCount allFiles else allFiles)
      in if id' = js ''fileScan'' then s\<lparr>fileScan := additionalFileList\<rparr> else s)"

definition is_address_char :: "code_unit \<Rightarrow> bool" where
  \<comment> \<open>\<open>[a-zA-Z0-9,.;/\s]\<close>\<close>
  "is_address_char c =
     (is_lower c \<or> is_upper c \<or> is_digit c \<or> c = 0x2C \<or> c = 0x2E \<or> c = 0x3B \<or> c = 0x2F
      \<or> is_white_space c)"

definition is_letter :: "code_unit \<Rightarrow> bool" where
  \<comment> \<open>\<open>[a-zA-Z]\<close>\<close>
  "is_letter c = (is_lower c \<or> is_upper c)"

definition residentialAddressRegex :: regex where
  \<comment> \<open>\<open>^[a-zA-Z0-9,.;/\s]+$\<close>\<close>
  "residentialAddressRegex = Plus (Cls is_address_char)"

definition cityRegex :: regex where
  \<comment> \<open>\<open>^[a-zA-Z]+$\<close>\<close>
  "cityRegex = Plus (Cls is_letter)"

definition postcodeRegex :: regex where
  \<comment> \<open>\<open>^[0-9]{1,12}$\<close>\<close>
  "postcodeRegex = Rep 1 12 (Cls is_digit)"

definition handleValidateInput :: "js_string \<Rightarrow> js_string \<Rightarrow> bool" where
  "handleValidateInput field v =
     (if field = js ''address'' then rx_match residentialAddressRegex v
      else if field = js ''city'' then rx_match cityRegex v
      else if field = js ''postcode'' then rx_match postcodeRegex v
      else True)"

definition handleCheckButtonDisabled :: "State \<Rightarrow> bool" where
  "handleCheckButtonDisabled s =
     (let addressValid = handleValidateInput (js ''address'') (address s);
          cityValid = handleValidateInput (js ''city'') (city s);
          postcodeValid = handleValidateInput (js ''postcode'') (postcode s)
      in \<not> addressValid \<or> \<not> cityValid \<or> \<not> postcodeValid \<or> country s = []
         \<or> length (fileScan s) = 0)"

definition sendAddress :: "State \<Rightarrow> FormData list" where
  \<comment> \<open>the calls of \<open>props.sendAddresses\<close>; the state is not touched\<close>
  "sendAddress s =
     (let request = [];
          request = append_file request (js ''upload[]'') (index0 (fileScan s));
          request = append_entry request (js ''address'') (EntryString (address s));
          request = append_entry request (js ''country'') (EntryString (country s));
          request = append_entry request (js ''city'') (EntryString (city s));
          request = append_entry request (js ''postcode'') (EntryString (postcode s))
      in [request])"

definition UNSAFE_componentWillReceiveProps :: "Props \<Rightarrow> js_string list" where
  \<comment> \<open>the calls of \<open>history.push\<close>; the state is not touched\<close>
  "UNSAFE_componentWillReceiveProps next =
     (case success next of
        None \<Rightarrow> []
      | Some m \<Rightarrow> if m = [] then [] else [js ''/settings''])"

text \<open>
  The events of the rendered form, each wired to its handler as \<open>render\<close> does: the
  text inputs \<open>address\<close>, \<open>city\<close> and \<open>postcode\<close> with their focus handlers, the
  country dropdown, the file input, the submit button and the arrival of new props.
  The last two leave the state as it is.
\<close>

datatype Event =
    ChangeInput js_string js_string
  | FocusInput js_string
  | SelectCountry js_string
  | UploadScan "File list"
  | ClickSubmit
  | ReceiveProps Props

definition rendered_field :: "js_string \<Rightarrow> bool" where
  "rendered_field key = (key = js ''address'' \<or> key = js ''city'' \<or> key = js ''postcode'')"

fun handle ::
  "(js_string \<Rightarrow> js_string \<Rightarrow> js_string) \<Rightarrow> Props \<Rightarrow> Event \<Rightarrow> State \<Rightarrow> State option" where
  "handle g p (ChangeInput v key) s =
     (if rendered_field key then handleChange v key s else None)"
| "handle g p (FocusInput field) s =
     (if rendered_field field then Some (handleFieldFocus field s) else None)"
| "handle g p (SelectCountry v) s = Some (selectCountry g p v s)"
| "handle g p (UploadScan allFiles) s = Some (handleUploadScan allFiles (js ''fileScan'') s)"
| "handle g p ClickSubmit s = Some s"
| "handle g p (ReceiveProps next) s = Some s"

inductive reachable ::
  "(js_string \<Rightarrow> js_string \<Rightarrow> js_string) \<Rightarrow> Props \<Rightarrow> State \<Rightarrow> bool"
  for g :: "js_string \<Rightarrow> js_string \<Rightarrow> js_string" and p :: Props where
  reachable_initial: "reachable g p initialState"
| reachable_handle: "reachable g p s \<Longrightarrow> handle g p e s = Some s' \<Longrightarrow> reachable g p s'"

section \<open>The order form\<close>

text \<open>
  \<open>OrderForm\<close>. Of its props and of what it renders, the model keeps what the amount,
  the price, the total and the submit button depend on; the labels, the currency names
  and the market dropdown are left out.

  The helpers \<open>getTotalPrice\<close> and \<open>cleanPositiveFloatInput\<close> and the component
  \<open>Decimal\<close> are imported from other files of the repository. The form is modelled for
  any three such functions, passed as \<open>h\<close>.

  A precision is a number of decimal places, a natural number here. (The interface types
  it \<open>number\<close>; in \<open>handleAmountChange\<close> a value that does not print as a natural number
  would not make a quantifier bound.)
\<close>

datatype FormType = buy | sell

datatype js_value = VUndefined | VNumber number | is_string: VString js_string

datatype ReactNode = NodeString js_string | NodeOther

record Helpers =
  getTotalPrice :: "js_string \<Rightarrow> js_string list list \<Rightarrow> number"
  cleanPositiveFloatInput :: "js_string \<Rightarrow> js_string"
  Decimal_format :: "number option \<Rightarrow> nat \<Rightarrow> js_string"

text \<open>The object literal that \<open>handleSubmit\<close> builds, typed \<open>OrderProps\<close>.\<close>

record OrderProps =
  type :: FormType
  orderType :: ReactNode
  amount :: js_string
  price :: js_value
  available :: number

record OrderFormProps =
  priceMarket :: number
  priceLimit :: "number option"
  type :: FormType
  available :: "number option"
  currentMarketAskPrecision :: nat
  currentMarketBidPrecision :: nat
  disabled :: "bool option"
  proposals :: "js_string list list"

record OrderFormState =
  orderType :: ReactNode
  amount :: js_string
  price :: js_string
  priceMarket :: number
  currentMarketAskPrecision :: nat
  currentMarketBidPrecision :: nat
  amountFocused :: bool
  priceFocused :: bool

fun truthy :: "js_value \<Rightarrow> bool" where
  "truthy VUndefined = False"
| "truthy (VNumber n) = truthy_number n"
| "truthy (VString w) = (w \<noteq> [])"

definition optional :: "number option \<Rightarrow> js_value" where
  \<comment> \<open>an optional prop of type \<open>number\<close>\<close>
  "optional x = (case x of None \<Rightarrow> VUndefined | Some n \<Rightarrow> VNumber n)"

definition handleSetValue :: "js_value \<Rightarrow> js_string \<Rightarrow> js_value" where
  "handleSetValue v defaultValue = (if truthy v then v else VString defaultValue)"

definition checkButtonIsDisabled ::
  "number \<Rightarrow> number \<Rightarrow> js_string \<Rightarrow> OrderFormProps \<Rightarrow> OrderFormState \<Rightarrow> bool" where
  "checkButtonIsDisabled safeAmount safePrice price' props state =
     (let invalidAmount = js_le safeAmount plus_zero;
          invalidLimitPrice =
            (js_le (Number price') plus_zero \<and> orderType state = NodeString (js ''Limit''));
          invalidMarketPrice =
            (js_le safePrice plus_zero \<and> orderType state = NodeString (js ''Market''))
      in disabled props = Some True \<or> \<not> truthy (optional (OrderFormProps.available props))
         \<or> invalidAmount \<or> invalidLimitPrice \<or> invalidMarketPrice)"

definition or_precision :: "nat \<Rightarrow> nat \<Rightarrow> nat" where
  \<comment> \<open>\<open>x || y\<close> on two precisions\<close>
  "or_precision x y = (if x = 0 then y else x)"

definition constructor :: "OrderFormProps \<Rightarrow> OrderFormState" where
  "constructor props =
     \<lparr> orderType = NodeString (js ''Market''),
       amount = [],
       price = [],
       priceMarket = OrderFormProps.priceMarket props,
       currentMarketAskPrecision =
         or_precision (OrderFormProps.currentMarketAskPrecision props) 6,
       currentMarketBidPrecision =
         or_precision (OrderFormProps.currentMarketBidPrecision props) 6,
       amountFocused = False,
       priceFocused = False \<rparr>"

definition componentWillReceiveProps ::
  "Helpers \<Rightarrow> OrderFormProps \<Rightarrow> OrderFormState \<Rightarrow> OrderFormState" where
  "componentWillReceiveProps h next s =
     (let nextPriceLimitTruncated =
            Decimal_format h (priceLimit next) (currentMarketBidPrecision s);
          s1 = (if orderType s = NodeString (js ''Limit'') \<and> truthy (optional (priceLimit next))
                   \<and> nextPriceLimitTruncated \<noteq> price s
                then s\<lparr>price := nextPriceLimitTruncated\<rparr> else s)
      in s1\<lparr> priceMarket := OrderFormProps.priceMarket next,
              currentMarketAskPrecision := OrderFormProps.currentMarketAskPrecision next,
              currentMarketBidPrecision := OrderFormProps.currentMarketBidPrecision next \<rparr>)"

text \<open>The values that \<open>render\<close> derives, each as a function of those it is computed from.\<close>

definition render_safeAmount :: "js_string \<Rightarrow> number" where
  \<comment> \<open>\<open>Number(amount) || 0\<close>\<close>
  "render_safeAmount amount' = or_number (Number amount') plus_zero"

definition render_safePrice :: "number \<Rightarrow> js_string \<Rightarrow> number \<Rightarrow> number" where
  \<comment> \<open>\<open>totalPrice / Number(amount) || priceMarket\<close>\<close>
  "render_safePrice totalPrice amount' priceMarket' =
     or_number (js_div totalPrice (Number amount')) priceMarket'"

definition render_total :: "ReactNode \<Rightarrow> number \<Rightarrow> js_string \<Rightarrow> js_string \<Rightarrow> number" where
  \<comment> \<open>\<open>orderType === 'Market' ? totalPrice : safeAmount * (Number(price) || 0)\<close>\<close>
  "render_total orderType' totalPrice amount' price' =
     (if orderType' = NodeString (js ''Market'') then totalPrice
      else js_mul (render_safeAmount amount') (or_number (Number price') plus_zero))"

record View =
  availableContent :: js_string
  amountValue :: js_value
  priceContent :: js_value
  totalContent :: js_string
  buttonDisabled :: bool

definition render :: "Helpers \<Rightarrow> OrderFormProps \<Rightarrow> OrderFormState \<Rightarrow> View" where
  "render h props s =
     (let totalPrice = getTotalPrice h (amount s) (proposals props);
          safePrice' = render_safePrice totalPrice (amount s) (priceMarket s);
          total' = render_total (orderType s) totalPrice (amount s) (price s);
          availablePrecision =
            (if OrderFormProps.type props = buy then currentMarketBidPrecision s
             else currentMarketAskPrecision s)
      in \<lparr> availableContent =
             (if truthy (optional (OrderFormProps.available props))
              then Decimal_format h (OrderFormProps.available props) availablePrecision
              else []),
           amountValue = handleSetValue (VString (amount s)) [],
           priceContent =
             handleSetValue
               (VString (Decimal_format h (Some safePrice') (currentMarketBidPrecision s)))
               (js ''0''),
           totalContent = Decimal_format h (Some total') (currentMarketBidPrecision s),
           buttonDisabled =
             checkButtonIsDisabled (render_safeAmount (amount s)) safePrice' (price s) props s \<rparr>)"

definition is_digit_or_minus :: "code_unit \<Rightarrow> bool" where
  \<comment> \<open>\<open>[\d-]\<close>\<close>
  "is_digit_or_minus c = (is_digit c \<or> c = 0x2D)"

definition is_dot :: "code_unit \<Rightarrow> bool" where
  \<comment> \<open>\<open>\.\<close>\<close>
  "is_dot c = (c = 0x2E)"

definition condition :: "nat \<Rightarrow> regex" where
  \<comment> \<open>\<open>^(?:[\d-]*\.?[\d-]{0,n}|[\d-]*\.[\d-])$\<close>, \<open>n\<close> the ask precision\<close>
  "condition n =
     Alt (Seq (Star (Cls is_digit_or_minus))
            (Seq (Opt (Cls is_dot)) (Rep 0 n (Cls is_digit_or_minus))))
         (Seq (Star (Cls is_digit_or_minus)) (Seq (Cls is_dot) (Cls is_digit_or_minus)))"

definition handleAmountChange :: "Helpers \<Rightarrow> js_string \<Rightarrow> OrderFormState \<Rightarrow> OrderFormState" where
  "handleAmountChange h v s =
     (let convertedValue = cleanPositiveFloatInput h v
      in if rx_match (condition (currentMarketAskPrecision s)) convertedValue
         then s\<lparr>amount := convertedValue\<rparr> else s)"

definition handleSubmit ::
  "OrderFormProps \<Rightarrow> OrderFormState \<Rightarrow> OrderProps list \<times> OrderFormState" where
  \<comment> \<open>the calls of \<open>props.onSubmit\<close>, and the state after \<open>setState\<close>\<close>
  "handleSubmit props s =
     (let order =
            \<lparr> OrderProps.type = OrderFormProps.type props,
              OrderProps.orderType = orderType s,
              OrderProps.amount = amount s,
              OrderProps.price =
                (if orderType s = NodeString (js ''Market'') then VNumber (priceMarket s)
                 else VString (price s)),
              OrderProps.available =
                (case OrderFormProps.available props of
                   None \<Rightarrow> plus_zero
                 | Some a \<Rightarrow> or_number a plus_zero) \<rparr>
      in ([order], s\<lparr>amount := [], price := []\<rparr>))"

text \<open>
  The amount pattern in words: digits and hyphens, then possibly a dot followed by at
  most \<open>n\<close> more of them, where one is allowed even if \<open>n\<close> is \<open>0\<close>.
\<close>

definition precision_limited :: "nat \<Rightarrow> js_string \<Rightarrow> bool" where
  "precision_limited n w =
     (let a = takeWhile (\<lambda>c. \<not> is_dot c) w; r = dropWhile (\<lambda>c. \<not> is_dot c) w
      in list_all is_digit_or_minus a
         \<and> (case r of
               [] \<Rightarrow> True
             | _ # b \<Rightarrow> list_all is_digit_or_minus b \<and> length b \<le> max n 1))"

definition handleFieldFocus_order ::
  "js_string option \<Rightarrow> js_string option \<Rightarrow> js_string option \<Rightarrow> OrderFormState
     \<Rightarrow> OrderFormState" where
  \<comment> \<open>\<open>handleFieldFocus\<close> of the order form; \<open>priceText\<close> and \<open>amountText\<close> are the props
      of these names, \<open>undefined\<close> when they are not given. The call of \<open>listenInputPrice\<close>
      does not touch the state.\<close>
  "handleFieldFocus_order priceText amountText field s =
     (if field = priceText then s\<lparr>priceFocused := \<not> priceFocused s\<rparr>
      else if field = amountText then s\<lparr>amountFocused := \<not> amountFocused s\<rparr>
      else s)"

text \<open>
  The states of the order form: the one that the constructor builds from the first props,
  and those that \<open>componentWillReceiveProps\<close> and the handlers make of them, whatever
  props the form has by then. \<open>componentDidMount\<close> and \<open>handleChangeBaseCurrency\<close> call
  \<open>setCurrentMarket\<close> and leave the state as it is.
\<close>

inductive form_state :: "Helpers \<Rightarrow> OrderFormState \<Rightarrow> bool" for h :: Helpers where
  constructed: "form_state h (constructor props)"
| received: "form_state h s \<Longrightarrow> form_state h (componentWillReceiveProps h next s)"
| amount_changed: "form_state h s \<Longrightarrow> form_state h (handleAmountChange h v s)"
| field_focused:
    "form_state h s \<Longrightarrow> form_state h (handleFieldFocus_order priceText amountText field s)"
| submitted: "form_state h s \<Longrightarrow> form_state h (snd (handleSubmit props s))"

text \<open>
  A decimal string in words: digits with at most one dot among them, and at least one
  digit.
\<close>

definition decimal_string :: "js_string \<Rightarrow> bool" where
  "decimal_string w =
     (let ip = takeWhile is_digit w; r = dropWhile is_digit w
      in case r of
           [] \<Rightarrow> ip \<noteq> []
         | c # fp \<Rightarrow> is_dot c \<and> list_all is_digit fp \<and> (ip \<noteq> [] \<or> fp \<noteq> []))"

section \<open>The number model on known values\<close>

text \<open>
  \<open>Number\<close> and the arithmetic agree with JavaScript where rounding shows: \<open>0.1\<close> is the
  double \<open>3602879701896397 / 2^55\<close>, \<open>0.1 * 3\<close> is \<open>0.30000000000000004\<close>, and the
  integer \<open>2^53 + 1\<close> rounds to \<open>2^53\<close>.
\<close>

lemma Number_examples:
  "Number (js '' 12.5e1 '') = Finite False 125"
  "Number (js ''0x1F'') = Finite False 31"
  "Number (js ''-0'') = Finite True 0"
  "Number (js ''.'') = NaN"
  "Number (js ''1-2'') = NaN"
  "Number (js ''-Infinity'') = Infinity True"
  "Number (js ''0.1'') = Finite False (3602879701896397 / 36028797018963968)"
  "Number (js ''9007199254740993'') = Finite False 9007199254740992"
  by code_simp+

lemma js_mul_example:
  "js_mul (Number (js ''0.1'')) (Number (js ''3''))
     = Finite False (1351079888211149 / 4503599627370496)"
  by code_simp

section \<open>The matcher decides the patterns\<close>

text \<open>
  \<open>rx_match\<close> accepts exactly the strings that the pattern denotes, so each pattern of
  the forms can be read as a condition on the characters of its input.
\<close>

lemma nullable_lang: "nullable r \<longleftrightarrow> [] \<in> rx_lang r"
  by (induction r) (auto intro: star_empty)

lemma star_cons:
  assumes "x \<in> star A" and "x = c # w"
  shows "\<exists>u v. w = u @ v \<and> c # u \<in> A \<and> v \<in> star A"
  using assms
proof (induction arbitrary: w)
  case star_empty
  then show ?case by simp
next
  case (star_step u v)
  show ?case
  proof (cases u)
    case Nil
    with star_step show ?thesis by simp
  next
    case (Cons d u')
    with star_step.prems have "d = c" and "w = u' @ v" by simp_all
    with Cons star_step.hyps show ?thesis by blast
  qed
qed

lemma deriv_lang: "w \<in> rx_lang (deriv c r) \<longleftrightarrow> c # w \<in> rx_lang r"
proof (induction r arbitrary: w)
  case (Seq r s)
  show ?case
  proof
    assume "w \<in> rx_lang (deriv c (Seq r s))"
    then consider u v where "w = u @ v" "u \<in> rx_lang (deriv c r)" "v \<in> rx_lang s"
      | "nullable r" "w \<in> rx_lang (deriv c s)"
      by (auto split: if_splits)
    then show "c # w \<in> rx_lang (Seq r s)"
    proof cases
      case 1
      then have "c # u \<in> rx_lang r" using Seq.IH(1) by simp
      with 1 have "c # w = (c # u) @ v \<and> c # u \<in> rx_lang r \<and> v \<in> rx_lang s" by simp
      then show ?thesis unfolding rx_lang.simps by blast
    next
      case 2
      then have "[] \<in> rx_lang r" and "c # w \<in> rx_lang s"
        using Seq.IH(2) nullable_lang by simp_all
      then have "c # w = [] @ (c # w) \<and> [] \<in> rx_lang r \<and> c # w \<in> rx_lang s" by simp
      then show ?thesis unfolding rx_lang.simps by blast
    qed
  next
    assume "c # w \<in> rx_lang (Seq r s)"
    then obtain u v where uv: "c # w = u @ v" "u \<in> rx_lang r" "v \<in> rx_lang s" by auto
    show "w \<in> rx_lang (deriv c (Seq r s))"
    proof (cases u)
      case Nil
      with uv have "nullable r" and "w \<in> rx_lang (deriv c s)"
        using Seq.IH(2) nullable_lang by simp_all
      then show ?thesis by simp
    next
      case (Cons d u')
      with uv have "u' \<in> rx_lang (deriv c r)" and "w = u' @ v"
        using Seq.IH(1) by simp_all
      with uv(3) show ?thesis by auto
    qed
  qed
next
  case (Star r)
  show ?case
  proof
    assume "w \<in> rx_lang (deriv c (Star r))"
    then obtain u v where "w = u @ v" "u \<in> rx_lang (deriv c r)" "v \<in> star (rx_lang r)" by auto
    then have "c # w = (c # u) @ v" "c # u \<in> rx_lang r" "v \<in> star (rx_lang r)"
      using Star.IH by simp_all
    then show "c # w \<in> rx_lang (Star r)" using star_step [of "c # u" "rx_lang r" v] by simp
  next
    assume "c # w \<in> rx_lang (Star r)"
    then have "c # w \<in> star (rx_lang r)" by simp
    from star_cons [OF this refl]
    obtain u v where "w = u @ v" "c # u \<in> rx_lang r" "v \<in> star (rx_lang r)" by blast
    then show "w \<in> rx_lang (deriv c (Star r))" using Star.IH by auto
  qed
qed auto

lemma rx_match_lang: "rx_match r w \<longleftrightarrow> w \<in> rx_lang r"
  by (induction w arbitrary: r) (simp_all add: nullable_lang deriv_lang)

lemma star_Cls: "w \<in> star (rx_lang (Cls P)) \<longleftrightarrow> list_all P w"
proof
  assume "w \<in> star (rx_lang (Cls P))"
  then show "list_all P w" by induction auto
next
  assume "list_all P w"
  then show "w \<in> star (rx_lang (Cls P))"
  proof (induction w)
    case Nil
    show ?case by (rule star_empty)
  next
    case (Cons c w)
    then have "[c] \<in> rx_lang (Cls P)" and "w \<in> star (rx_lang (Cls P))" by simp_all
    then have "[c] @ w \<in> star (rx_lang (Cls P))" by (rule star_step)
    then show ?case by simp
  qed
qed

lemma lang_Seq_Cls_Cons: "c # v \<in> rx_lang (Seq (Cls P) r) \<longleftrightarrow> P c \<and> v \<in> rx_lang r"
proof
  assume "c # v \<in> rx_lang (Seq (Cls P) r)"
  then show "P c \<and> v \<in> rx_lang r" by auto
next
  assume "P c \<and> v \<in> rx_lang r"
  then have "c # v = [c] @ v \<and> [c] \<in> rx_lang (Cls P) \<and> v \<in> rx_lang r" by simp
  then show "c # v \<in> rx_lang (Seq (Cls P) r)" unfolding rx_lang.simps(4) by blast
qed

lemma lang_Seq_Cls_Nil: "[] \<notin> rx_lang (Seq (Cls P) r)"
  by simp

lemma lang_Plus_Cls: "w \<in> rx_lang (Plus (Cls P)) \<longleftrightarrow> w \<noteq> [] \<and> list_all P w"
proof (cases w)
  case Nil
  then show ?thesis by (simp add: Plus_def)
next
  case (Cons c v)
  have "v \<in> rx_lang (Star (Cls P)) \<longleftrightarrow> list_all P v" using star_Cls by simp
  with Cons show ?thesis by (simp add: Plus_def lang_Seq_Cls_Cons del: rx_lang.simps)
qed

lemma lang_Rep0_Cls: "w \<in> rx_lang (Rep 0 n (Cls P)) \<longleftrightarrow> length w \<le> n \<and> list_all P w"
proof (induction n arbitrary: w)
  case 0
  show ?case by auto
next
  case (Suc n)
  show ?case
  proof (cases w)
    case Nil
    then show ?thesis by simp
  next
    case (Cons c v)
    then show ?thesis
      using Suc [of v] by (auto simp add: lang_Seq_Cls_Cons simp del: rx_lang.simps(3,4))
  qed
qed

lemma lang_Rep_Cls:
  "m \<le> n \<Longrightarrow> w \<in> rx_lang (Rep m n (Cls P)) \<longleftrightarrow> m \<le> length w \<and> length w \<le> n \<and> list_all P w"
proof (induction m arbitrary: n w)
  case 0
  show ?case by (simp add: lang_Rep0_Cls)
next
  case (Suc m)
  then have *: "m \<le> n - 1" by simp
  show ?case
  proof (cases w)
    case Nil
    then show ?thesis by (simp add: lang_Seq_Cls_Nil del: rx_lang.simps)
  next
    case (Cons c v)
    then show ?thesis
      using Suc.prems Suc.IH [OF *, of v]
      by (auto simp add: lang_Seq_Cls_Cons simp del: rx_lang.simps(3,4))
  qed
qed

subsection \<open>The patterns of the address form\<close>

lemma residentialAddressRegex_iff:
  "rx_match residentialAddressRegex w \<longleftrightarrow> w \<noteq> [] \<and> list_all is_address_char w"
  by (simp add: rx_match_lang residentialAddressRegex_def lang_Plus_Cls)

lemma cityRegex_iff: "rx_match cityRegex w \<longleftrightarrow> w \<noteq> [] \<and> list_all is_letter w"
  by (simp add: rx_match_lang cityRegex_def lang_Plus_Cls)

lemma postcodeRegex_iff:
  "rx_match postcodeRegex w \<longleftrightarrow> 1 \<le> length w \<and> length w \<le> 12 \<and> list_all is_digit w"
proof -
  have "(1::nat) \<le> 12" by simp
  from lang_Rep_Cls [OF this, of w is_digit] show ?thesis
    by (simp only: rx_match_lang postcodeRegex_def)
qed

subsection \<open>The amount pattern of the order form\<close>

lemma lang_Seq_Star_Cls:
  "w \<in> rx_lang (Seq (Star (Cls P)) r) \<longleftrightarrow> (\<exists>u v. w = u @ v \<and> list_all P u \<and> v \<in> rx_lang r)"
  using star_Cls by (simp del: rx_lang.simps(3))

lemma lang_Seq_Opt_Cls:
  "v \<in> rx_lang (Seq (Opt (Cls Q)) r) \<longleftrightarrow>
     v \<in> rx_lang r \<or> (\<exists>c t. v = c # t \<and> Q c \<and> t \<in> rx_lang r)"
proof
  assume "v \<in> rx_lang (Seq (Opt (Cls Q)) r)"
  then obtain x t where "v = x @ t" "x = [] \<or> (\<exists>c. x = [c] \<and> Q c)" "t \<in> rx_lang r"
    by (auto simp: Opt_def)
  then show "v \<in> rx_lang r \<or> (\<exists>c t. v = c # t \<and> Q c \<and> t \<in> rx_lang r)" by auto
next
  assume "v \<in> rx_lang r \<or> (\<exists>c t. v = c # t \<and> Q c \<and> t \<in> rx_lang r)"
  then show "v \<in> rx_lang (Seq (Opt (Cls Q)) r)"
  proof
    assume "v \<in> rx_lang r"
    then have "v = [] @ v \<and> [] \<in> rx_lang (Opt (Cls Q)) \<and> v \<in> rx_lang r"
      by (simp add: Opt_def)
    then show ?thesis unfolding rx_lang.simps(4) by blast
  next
    assume "\<exists>c t. v = c # t \<and> Q c \<and> t \<in> rx_lang r"
    then obtain c t where "v = c # t" "Q c" "t \<in> rx_lang r" by blast
    then have "v = [c] @ t \<and> [c] \<in> rx_lang (Opt (Cls Q)) \<and> t \<in> rx_lang r"
      by (simp add: Opt_def)
    then show ?thesis unfolding rx_lang.simps(4) by blast
  qed
qed

lemma lang_Seq_Cls_Cls:
  "v \<in> rx_lang (Seq (Cls Q) (Cls P)) \<longleftrightarrow> (\<exists>c d. v = [c, d] \<and> Q c \<and> P d)"
proof (cases v)
  case Nil
  then show ?thesis by (simp add: lang_Seq_Cls_Nil del: rx_lang.simps)
next
  case (Cons c t)
  then show ?thesis by (auto simp add: lang_Seq_Cls_Cons simp del: rx_lang.simps(4))
qed

lemma condition_lang:
  "w \<in> rx_lang (condition n) \<longleftrightarrow>
     (\<exists>u v. w = u @ v \<and> list_all is_digit_or_minus u
        \<and> ((length v \<le> n \<and> list_all is_digit_or_minus v)
            \<or> (\<exists>c t. v = c # t \<and> is_dot c \<and> length t \<le> n \<and> list_all is_digit_or_minus t)
            \<or> (\<exists>c d. v = [c, d] \<and> is_dot c \<and> is_digit_or_minus d)))"
proof -
  have "w \<in> rx_lang (condition n) \<longleftrightarrow>
      w \<in> rx_lang (Seq (Star (Cls is_digit_or_minus))
                    (Seq (Opt (Cls is_dot)) (Rep 0 n (Cls is_digit_or_minus))))
      \<or> w \<in> rx_lang (Seq (Star (Cls is_digit_or_minus))
                      (Seq (Cls is_dot) (Cls is_digit_or_minus)))"
    by (simp add: condition_def)
  then show ?thesis
    unfolding lang_Seq_Star_Cls lang_Seq_Opt_Cls lang_Seq_Cls_Cls lang_Rep0_Cls by blast
qed

lemma digit_or_minus_not_dot: "is_digit_or_minus c \<Longrightarrow> \<not> is_dot c"
  by (auto simp: is_digit_or_minus_def is_dot_def is_digit_def)

lemma all_not_dot: "list_all is_digit_or_minus u \<Longrightarrow> \<forall>c\<in>set u. \<not> is_dot c"
  by (auto simp: list_all_iff dest: digit_or_minus_not_dot)

lemma precision_limited_plain:
  assumes "list_all is_digit_or_minus w"
  shows "precision_limited n w"
proof -
  from all_not_dot [OF assms] have tw: "takeWhile (\<lambda>c. \<not> is_dot c) w = w"
    and dw: "dropWhile (\<lambda>c. \<not> is_dot c) w = []" by simp_all
  show ?thesis by (simp add: precision_limited_def tw dw assms)
qed

lemma precision_limited_dotted:
  assumes "list_all is_digit_or_minus u" and "is_dot c"
  shows "precision_limited n (u @ c # t) \<longleftrightarrow> list_all is_digit_or_minus t \<and> length t \<le> max n 1"
proof -
  from all_not_dot [OF assms(1)] assms(2)
  have tw: "takeWhile (\<lambda>c. \<not> is_dot c) (u @ c # t) = u"
    and dw: "dropWhile (\<lambda>c. \<not> is_dot c) (u @ c # t) = c # t"
    by (simp_all add: takeWhile_append2 dropWhile_append2)
  show ?thesis by (simp add: precision_limited_def tw dw assms)
qed

lemma condition_iff: "rx_match (condition n) w \<longleftrightarrow> precision_limited n w"
proof
  assume "rx_match (condition n) w"
  then have "w \<in> rx_lang (condition n)" by (simp add: rx_match_lang)
  then obtain u v where w: "w = u @ v" and u: "list_all is_digit_or_minus u"
    and v: "(length v \<le> n \<and> list_all is_digit_or_minus v)
            \<or> (\<exists>c t. v = c # t \<and> is_dot c \<and> length t \<le> n \<and> list_all is_digit_or_minus t)
            \<or> (\<exists>c d. v = [c, d] \<and> is_dot c \<and> is_digit_or_minus d)"
    unfolding condition_lang by blast
  from v show "precision_limited n w"
  proof (elim disjE exE conjE)
    assume "list_all is_digit_or_minus v"
    with u w have "list_all is_digit_or_minus w" by simp
    then show ?thesis by (rule precision_limited_plain)
  next
    fix c t
    assume "v = c # t" "is_dot c" "length t \<le> n" "list_all is_digit_or_minus t"
    with u w show ?thesis by (simp add: precision_limited_dotted)
  next
    fix c d
    assume "v = [c, d]" "is_dot c" "is_digit_or_minus d"
    with u w show ?thesis by (simp add: precision_limited_dotted)
  qed
next
  assume pl: "precision_limited n w"
  define a where "a = takeWhile (\<lambda>c. \<not> is_dot c) w"
  define r where "r = dropWhile (\<lambda>c. \<not> is_dot c) w"
  have w: "w = a @ r" by (simp add: a_def r_def)
  from pl have a: "list_all is_digit_or_minus a"
    by (simp add: precision_limited_def a_def Let_def)
  have "w \<in> rx_lang (condition n)"
  proof (cases r)
    case Nil
    with w a have "w = a @ [] \<and> list_all is_digit_or_minus a
        \<and> length ([]::js_string) \<le> n \<and> list_all is_digit_or_minus []" by simp
    then show ?thesis unfolding condition_lang by blast
  next
    case (Cons c t)
    then have "r \<noteq> []" by simp
    then have "\<not> \<not> is_dot (hd r)" unfolding r_def by (rule hd_dropWhile)
    with Cons have c: "is_dot c" by simp
    from pl Cons have t: "list_all is_digit_or_minus t" and len: "length t \<le> max n 1"
      by (simp_all add: precision_limited_def r_def [symmetric] Let_def)
    show ?thesis
    proof (cases "length t \<le> n")
      case True
      with w a c t Cons show ?thesis unfolding condition_lang by blast
    next
      case False
      with len have "length t = 1" by simp
      then obtain d where "t = [d]" by (cases t) simp_all
      with w a c t Cons have "w = a @ [c, d] \<and> list_all is_digit_or_minus a
          \<and> is_dot c \<and> is_digit_or_minus d" by simp
      then show ?thesis unfolding condition_lang by blast
    qed
  qed
  then show "rx_match (condition n) w" by (simp add: rx_match_lang)
qed

section \<open>Properties of the address form\<close>

lemma js_field_neq [simp]:
  "js ''address'' \<noteq> js ''city''" "js ''address'' \<noteq> js ''postcode''"
  "js ''city'' \<noteq> js ''postcode''" "js ''city'' \<noteq> js ''address''"
  "js ''postcode'' \<noteq> js ''address''" "js ''postcode'' \<noteq> js ''city''"
  by (simp_all add: js_def)

text \<open>
  C2. The submit button of the address form is enabled, that is
  \<open>handleCheckButtonDisabled\<close> returns false, exactly when the address is a non-empty
  string of characters of \<open>[a-zA-Z0-9,.;/\s]\<close>, the city a non-empty string of letters
  \<open>[a-zA-Z]\<close>, the postcode one to twelve digits, the country non-empty and the list
  \<open>fileScan\<close> non-empty. If any of the five fails it returns true.
\<close>

theorem handleCheckButtonDisabled_iff:
  "\<not> handleCheckButtonDisabled s \<longleftrightarrow>
     (address s \<noteq> [] \<and> list_all is_address_char (address s))
     \<and> (city s \<noteq> [] \<and> list_all is_letter (city s))
     \<and> (1 \<le> length (postcode s) \<and> length (postcode s) \<le> 12 \<and> list_all is_digit (postcode s))
     \<and> country s \<noteq> []
     \<and> fileScan s \<noteq> []"
  by (auto simp add: handleCheckButtonDisabled_def handleValidateInput_def
      residentialAddressRegex_iff cityRegex_iff postcodeRegex_iff)

text \<open>
  A form that is filled in well has its button enabled; with a space in the city, which
  \<open>[a-zA-Z]\<close> does not admit, the button is disabled.
\<close>

theorem handleCheckButtonDisabled_iff_witness:
  "\<not> handleCheckButtonDisabled
       \<lparr> country = js ''DE'', address = js ''Main St. 5'', addressFocused = False,
         city = js ''Berlin'', cityFocused = False, postcode = js ''10115'',
         postcodeFocused = False, fileScan = [File (js ''scan.png'')] \<rparr>
   \<and> handleCheckButtonDisabled
       \<lparr> country = js ''DE'', address = js ''Main St. 5'', addressFocused = False,
         city = js ''New York'', cityFocused = False, postcode = js ''10115'',
         postcodeFocused = False, fileScan = [File (js ''scan.png'')] \<rparr>"
  using
    handleCheckButtonDisabled_iff
      [of "\<lparr> country = js ''DE'', address = js ''Main St. 5'', addressFocused = False,
             city = js ''Berlin'', cityFocused = False, postcode = js ''10115'',
             postcodeFocused = False, fileScan = [File (js ''scan.png'')] \<rparr>"]
    handleCheckButtonDisabled_iff
      [of "\<lparr> country = js ''DE'', address = js ''Main St. 5'', addressFocused = False,
             city = js ''New York'', cityFocused = False, postcode = js ''10115'',
             postcodeFocused = False, fileScan = [File (js ''scan.png'')] \<rparr>"]
  by (simp add: js_def is_address_char_def is_letter_def is_digit_def is_lower_def
      is_upper_def is_white_space_def)

text \<open>
  C6. \<open>sendAddress\<close> calls \<open>sendAddresses\<close> exactly once, with a payload of exactly
  five entries in this order: \<open>upload[]\<close>, \<open>address\<close>, \<open>country\<close>, \<open>city\<close> and
  \<open>postcode\<close>. The four texts are the strings of the state as they are, and \<open>upload[]\<close>
  is the first file of \<open>fileScan\<close> whenever there is one.
\<close>

theorem sendAddress_payload:
  "\<exists>upload.
     sendAddress s =
       [[(js ''upload[]'', upload),
         (js ''address'', EntryString (address s)),
         (js ''country'', EntryString (country s)),
         (js ''city'', EntryString (city s)),
         (js ''postcode'', EntryString (postcode s))]]
     \<and> (\<forall>f fs. fileScan s = f # fs \<longrightarrow> upload = EntryFile f)"
  by (simp add: sendAddress_def append_file_def append_entry_def index0_def split: list.split)

theorem sendAddress_payload_witness:
  "sendAddress
     \<lparr> country = js ''DE'', address = js ''Main St. 5'', addressFocused = False,
       city = js ''Berlin'', cityFocused = False, postcode = js ''10115'',
       postcodeFocused = False, fileScan = [File (js ''scan.png'')] \<rparr>
   = [[(js ''upload[]'', EntryFile (File (js ''scan.png''))),
       (js ''address'', EntryString (js ''Main St. 5'')),
       (js ''country'', EntryString (js ''DE'')),
       (js ''city'', EntryString (js ''Berlin'')),
       (js ''postcode'', EntryString (js ''10115''))]]"
  using
    sendAddress_payload
      [of "\<lparr> country = js ''DE'', address = js ''Main St. 5'', addressFocused = False,
             city = js ''Berlin'', cityFocused = False, postcode = js ''10115'',
             postcodeFocused = False, fileScan = [File (js ''scan.png'')] \<rparr>"]
  by auto

lemma handleUploadScan_fileScan:
  "fileScan (handleUploadScan allFiles (js ''fileScan'') s) = take 1 allFiles"
  by (simp add: handleUploadScan_def maxDocsCount_def)

lemma handle_keeps_fileScan:
  "handle g p e s = Some s' \<Longrightarrow> (\<And>fs. e \<noteq> UploadScan fs) \<Longrightarrow> fileScan s' = fileScan s"
  by (cases e)
    (auto simp: handleChange_def handleFieldFocus_def selectCountry_def split: if_splits)

lemma reachable_fileScan: "reachable g p s \<Longrightarrow> length (fileScan s) \<le> 1"
proof (induction rule: reachable.induct)
  case reachable_initial
  show ?case by (simp add: initialState_def)
next
  case (reachable_handle s e s')
  show ?case
  proof (cases "\<exists>fs. e = UploadScan fs")
    case True
    then obtain fs where "e = UploadScan fs" by blast
    with reachable_handle.hyps(2) show ?thesis by (auto simp: handleUploadScan_fileScan)
  next
    case False
    then have "fileScan s' = fileScan s"
      using handle_keeps_fileScan [OF reachable_handle.hyps(2)] by blast
    with reachable_handle.IH show ?thesis by simp
  qed
qed

text \<open>
  C8. After the upload handler of the file input, \<open>fileScan\<close> holds at most one file,
  the first of the chosen ones when several were chosen. Called with another id the
  handler keeps a list of at most one file that short. Every other event of the form
  leaves \<open>fileScan\<close> as it is, so in every state the form can reach from its initial
  state the list has at most one element.
\<close>

theorem fileScan_at_most_one:
  "length (fileScan (handleUploadScan allFiles (js ''fileScan'') s)) \<le> 1
   \<and> (1 < length allFiles \<longrightarrow>
        fileScan (handleUploadScan allFiles (js ''fileScan'') s) = [hd allFiles])
   \<and> (length (fileScan s) \<le> 1 \<longrightarrow> length (fileScan (handleUploadScan allFiles id' s)) \<le> 1)
   \<and> (handle g p e s = Some s' \<and> (\<forall>fs. e \<noteq> UploadScan fs) \<longrightarrow> fileScan s' = fileScan s)
   \<and> (reachable g p s \<longrightarrow> length (fileScan s) \<le> 1)"
proof -
  have a: "fileScan (handleUploadScan allFiles (js ''fileScan'') s) = take 1 allFiles"
    by (rule handleUploadScan_fileScan)
  have b: "1 < length allFiles \<longrightarrow> take 1 allFiles = [hd allFiles]"
    by (cases allFiles) simp_all
  have c: "length (fileScan s) \<le> 1 \<longrightarrow> length (fileScan (handleUploadScan allFiles id' s)) \<le> 1"
    by (simp add: handleUploadScan_def maxDocsCount_def)
  have d: "handle g p e s = Some s' \<and> (\<forall>fs. e \<noteq> UploadScan fs) \<longrightarrow> fileScan s' = fileScan s"
    using handle_keeps_fileScan [of g p e s s'] by blast
  have e: "reachable g p s \<longrightarrow> length (fileScan s) \<le> 1"
    using reachable_fileScan by blast
  from a b c d e show ?thesis by simp
qed

text \<open>
  Two files are chosen in the initial form, then two others, then the city input is
  focused: the first choice is a reachable state with one file, the second choice keeps
  the first of its two files, and the focus leaves the list alone.
\<close>

theorem fileScan_at_most_one_witness:
  "reachable (\<lambda>v l. v) \<lparr> lang = js ''en'', success = None \<rparr>
     (handleUploadScan [File (js ''a.png''), File (js ''b.png'')] (js ''fileScan'') initialState)
   \<and> fileScan
       (handleUploadScan [File (js ''a.png''), File (js ''b.png'')] (js ''fileScan'')
          initialState)
     = [File (js ''a.png'')]
   \<and> 1 < length [File (js ''c.png''), File (js ''d.png'')]
   \<and> fileScan
       (handleUploadScan [File (js ''c.png''), File (js ''d.png'')] (js ''fileScan'')
          (handleUploadScan [File (js ''a.png''), File (js ''b.png'')] (js ''fileScan'')
             initialState))
     = [File (js ''c.png'')]
   \<and> handle (\<lambda>v l. v) \<lparr> lang = js ''en'', success = None \<rparr> (FocusInput (js ''city''))
       (handleUploadScan [File (js ''a.png''), File (js ''b.png'')] (js ''fileScan'')
          initialState)
     = Some (handleFieldFocus (js ''city'')
          (handleUploadScan [File (js ''a.png''), File (js ''b.png'')] (js ''fileScan'')
             initialState))
   \<and> fileScan
       (handleFieldFocus (js ''city'')
          (handleUploadScan [File (js ''a.png''), File (js ''b.png'')] (js ''fileScan'')
             initialState))
     = [File (js ''a.png'')]"
proof -
  let ?g = "\<lambda>v l :: js_string. v"
  let ?p = "\<lparr> lang = js ''en'', success = None \<rparr>"
  let ?s = "handleUploadScan [File (js ''a.png''), File (js ''b.png'')] (js ''fileScan'')
              initialState"
  let ?s' = "handleFieldFocus (js ''city'') ?s"
  have "handle ?g ?p (UploadScan [File (js ''a.png''), File (js ''b.png'')]) initialState
          = Some ?s" by simp
  with reachable_initial have r: "reachable ?g ?p ?s" by (rule reachable_handle)
  have h: "handle ?g ?p (FocusInput (js ''city'')) ?s = Some ?s'"
    by (simp add: rendered_field_def)
  have n: "\<forall>fs. FocusInput (js ''city'') \<noteq> UploadScan fs" by simp
  have l: "1 < length [File (js ''c.png''), File (js ''d.png'')]" by simp
  have f: "fileScan ?s = [File (js ''a.png'')]"
    by (simp add: handleUploadScan_def maxDocsCount_def)
  from fileScan_at_most_one
         [of "[File (js ''c.png''), File (js ''d.png'')]" ?s "js ''fileScan''" ?g ?p
             "FocusInput (js ''city'')" ?s']
       r h n l f
  show ?thesis by simp
qed

section \<open>Properties of the order form\<close>

lemma Number_0: "Number (js ''0'') = plus_zero"
  by code_simp

lemma Number_empty: "Number [] = plus_zero"
  by (simp add: Number_def trim_def)

lemma Number_2: "Number (js ''2'') = Finite False 2"
  by code_simp


lemma finite_result_3: "finite_result False 3 = Finite False 3"
  by code_simp


lemma Limit_neq_Market: "NodeString (js ''Limit'') \<noteq> NodeString (js ''Market'')"
  by (simp add: js_def)


lemma truthy_number_iff:
  "truthy_number x \<longleftrightarrow> x \<noteq> NaN \<and> x \<noteq> Finite False 0 \<and> x \<noteq> Finite True 0"
  by (cases x) auto

lemma render_buttonDisabled:
  "buttonDisabled (render h props s) =
     checkButtonIsDisabled (render_safeAmount (amount s))
       (render_safePrice (getTotalPrice h (amount s) (proposals props)) (amount s) (priceMarket s))
       (price s) props s"
  by (simp add: render_def Let_def)


lemma render_priceContent:
  "priceContent (render h props s) =
     handleSetValue
       (VString (Decimal_format h
          (Some (render_safePrice (getTotalPrice h (amount s) (proposals props)) (amount s)
                   (priceMarket s)))
          (currentMarketBidPrecision s)))
       (js ''0'')"
  by (simp add: render_def Let_def)

subsection \<open>The states of the order form\<close>

lemma amount_char_range:
  "is_digit_or_minus c \<or> is_dot c \<Longrightarrow> 45 \<le> unat c \<and> unat c \<le> 57"
  by (auto simp: is_digit_or_minus_def is_dot_def is_digit_def word_le_nat_alt)

lemma unat_not_white_space: "45 \<le> unat c \<Longrightarrow> unat c \<le> 57 \<Longrightarrow> \<not> is_white_space c"
  by (auto simp: is_white_space_def word_le_nat_alt)

lemma precision_limited_chars:
  assumes "precision_limited n w"
  shows "list_all (\<lambda>c. is_digit_or_minus c \<or> is_dot c) w"
proof -
  define a where "a = takeWhile (\<lambda>c. \<not> is_dot c) w"
  define r where "r = dropWhile (\<lambda>c. \<not> is_dot c) w"
  have w: "w = a @ r" by (simp add: a_def r_def)
  from assms have a: "list_all is_digit_or_minus a"
    by (simp add: precision_limited_def a_def Let_def)
  have r: "list_all (\<lambda>c. is_digit_or_minus c \<or> is_dot c) r"
  proof (cases r)
    case Nil
    then show ?thesis by simp
  next
    case (Cons c t)
    then have "r \<noteq> []" by simp
    then have "\<not> \<not> is_dot (hd r)" unfolding r_def by (rule hd_dropWhile)
    with Cons have c: "is_dot c" by simp
    from assms Cons have "list_all is_digit_or_minus t"
      by (simp add: precision_limited_def r_def [symmetric] Let_def)
    with c Cons show ?thesis by (simp add: list_all_iff)
  qed
  from a have "list_all (\<lambda>c. is_digit_or_minus c \<or> is_dot c) a" by (simp add: list_all_iff)
  with r w show ?thesis by simp
qed

lemma Market_neq_Limit: "js ''Market'' \<noteq> js ''Limit''"
  by (simp add: js_def)

lemma form_state_invariant:
  "form_state h s \<Longrightarrow>
     orderType s = NodeString (js ''Market'') \<and> price s = []
     \<and> list_all (\<lambda>c. is_digit_or_minus c \<or> is_dot c) (amount s)"
proof (induction rule: form_state.induct)
  case (constructed props)
  show ?case by (simp add: constructor_def)
next
  case (received s "next")
  then show ?case by (simp add: componentWillReceiveProps_def Let_def Market_neq_Limit)
next
  case (amount_changed s v)
  then show ?case
    by (simp add: handleAmountChange_def Let_def condition_iff precision_limited_chars)
next
  case (field_focused s priceText amountText field)
  then show ?case by (simp add: handleFieldFocus_order_def)
next
  case (submitted s props)
  then show ?case by (simp add: handleSubmit_def)
qed

lemma radix_value_nonneg: "0 \<le> radix_value b w"
proof -
  have "0 \<le> a \<Longrightarrow>
      0 \<le> foldl (\<lambda>a c. int b * a + (case digit_value c of None \<Rightarrow> 0 | Some d \<Rightarrow> int d)) a w"
    for a
    by (induction w arbitrary: a) (auto split: option.splits)
  then show ?thesis by (simp add: radix_value_def)
qed

lemma pow10_pos: "0 < pow10 e"
  by (simp add: pow10_def)

lemma pow2_pos: "0 < pow2 e"
  by (simp add: pow2_def)

lemma round_half_even_nonneg: "0 \<le> z \<Longrightarrow> 0 \<le> round_half_even z"
  by (auto simp: round_half_even_def Let_def)

lemma round_double_nonneg:
  assumes "0 \<le> x" and "round_double x = Some y"
  shows "0 \<le> y"
proof (cases "x = 0")
  case True
  with assms show ?thesis by (simp add: round_double_def)
next
  case False
  define q where "q = max (ilog2 x - 52) (- 1074)"
  from assms(1) pow2_pos [of q] have "0 \<le> x / pow2 q" by simp
  then have "0 \<le> round_half_even (x / pow2 q)" by (rule round_half_even_nonneg)
  with pow2_pos [of q] have "0 \<le> of_int (round_half_even (x / pow2 q)) * pow2 q" by simp
  with assms(2) False show ?thesis
    by (simp add: round_double_def Let_def q_def split: if_splits)
qed

lemma finite_result_negative: "0 \<le> x \<Longrightarrow> js_le (finite_result True x) plus_zero"
  by (cases "round_double x")
    (auto simp: finite_result_def plus_zero_def signed_value_def dest: round_double_nonneg)

lemma mantissa_nonneg: "mantissa m = Some (v, k) \<Longrightarrow> 0 \<le> v"
  by (auto simp: mantissa_def Let_def radix_value_nonneg split: list.splits if_splits)

lemma unsigned_decimal_negative:
  "truthy_number (unsigned_decimal True r) \<Longrightarrow> js_le (unsigned_decimal True r) plus_zero"
  by (auto simp: unsigned_decimal_def Let_def plus_zero_def
      split: if_splits option.splits list.splits
      intro!: finite_result_negative [unfolded plus_zero_def]
      dest!: mantissa_nonneg
      simp: less_imp_le [OF pow10_pos])

lemma mantissa_decimal_string: "mantissa w \<noteq> None \<longleftrightarrow> decimal_string w"
proof (cases "dropWhile is_digit w")
  case Nil
  show ?thesis by (simp add: mantissa_def decimal_string_def Let_def Nil)
next
  case (Cons c fp)
  show ?thesis by (simp add: mantissa_def decimal_string_def Let_def is_dot_def Cons)
qed

lemma dropWhile_none: "\<forall>x\<in>set w. \<not> P x \<Longrightarrow> dropWhile P w = w"
  by (cases w) simp_all

lemma trim_amount:
  assumes "list_all (\<lambda>c. is_digit_or_minus c \<or> is_dot c) w"
  shows "trim w = w"
proof -
  have "\<not> is_white_space c" if "c \<in> set w" for c
  proof -
    from assms that have "is_digit_or_minus c \<or> is_dot c" by (simp add: list_all_iff)
    then have "45 \<le> unat c \<and> unat c \<le> 57" by (rule amount_char_range)
    then show ?thesis by (simp add: unat_not_white_space)
  qed
  then show ?thesis by (simp add: trim_def dropWhile_none)
qed

lemma amount_char_not_letter:
  assumes "is_digit_or_minus c \<or> is_dot c"
  shows "c \<noteq> 0x78" "c \<noteq> 0x58" "c \<noteq> 0x6F" "c \<noteq> 0x4F" "c \<noteq> 0x62" "c \<noteq> 0x42"
    "c \<noteq> 0x65" "c \<noteq> 0x45" "c \<noteq> 0x2B" "c \<noteq> 0x49"
  using amount_char_range [OF assms] by auto

lemma unsigned_decimal_amount:
  assumes "list_all (\<lambda>c. is_digit_or_minus c \<or> is_dot c) w"
    and "unsigned_decimal sg w \<noteq> NaN"
  shows "decimal_string w"
proof -
  have "c \<noteq> 0x65 \<and> c \<noteq> 0x45" if "c \<in> set w" for c
  proof -
    from assms(1) that have "is_digit_or_minus c \<or> is_dot c" by (simp add: list_all_iff)
    then show ?thesis by (simp add: amount_char_not_letter)
  qed
  then have e: "\<forall>c\<in>set w. c \<noteq> 0x65 \<and> c \<noteq> 0x45" by blast
  then have tw: "takeWhile (\<lambda>c. c \<noteq> 0x65 \<and> c \<noteq> 0x45) w = w"
    and dw: "dropWhile (\<lambda>c. c \<noteq> 0x65 \<and> c \<noteq> 0x45) w = []" by simp_all
  have "w \<noteq> js ''Infinity''"
  proof
    assume "w = js ''Infinity''"
    then have "0x49 \<in> set w" by (simp add: js_def)
    with assms(1) have "is_digit_or_minus 0x49 \<or> is_dot 0x49" by (simp add: list_all_iff)
    then show False by (simp add: is_digit_or_minus_def is_dot_def is_digit_def)
  qed
  with assms(2) have "mantissa w \<noteq> None"
    by (cases "mantissa w") (simp_all add: unsigned_decimal_def Let_def tw dw)
  then show ?thesis using mantissa_decimal_string [of w] by blast
qed

lemma Number_amount:
  assumes C: "list_all (\<lambda>c. is_digit_or_minus c \<or> is_dot c) w"
    and t: "truthy_number (Number w)"
    and p: "\<not> js_le (Number w) plus_zero"
  shows "decimal_string w"
proof (cases w)
  case Nil
  with t show ?thesis by (simp add: Number_def trim_def plus_zero_def)
next
  case (Cons c r)
  with C have c: "is_digit_or_minus c \<or> is_dot c"
    and r: "list_all (\<lambda>c. is_digit_or_minus c \<or> is_dot c) r" by simp_all
  have hd: "r \<noteq> [] \<Longrightarrow> is_digit_or_minus (hd r) \<or> is_dot (hd r)"
    using r by (cases r) simp_all
  have tr: "trim (c # r) = c # r" using trim_amount [OF C] Cons by simp
  have N: "Number w = (if c = 0x2D then unsigned_decimal True r else unsigned_decimal False w)"
    using amount_char_not_letter [OF c] amount_char_not_letter [OF hd]
    by (auto simp: Number_def tr Cons)
  show ?thesis
  proof (cases "c = 0x2D")
    case True
    with N t p unsigned_decimal_negative [of r] show ?thesis by simp
  next
    case False
    with N t have "unsigned_decimal False w \<noteq> NaN" by auto
    with C show ?thesis by (rule unsigned_decimal_amount)
  qed
qed

lemma enabled_facts:
  assumes "\<not> checkButtonIsDisabled (render_safeAmount a) sp pr props s"
  shows "truthy_number (Number a)" and "\<not> js_le (Number a) plus_zero"
    and "\<exists>av. OrderFormProps.available props = Some av \<and> truthy_number av"
proof -
  from assms have le: "\<not> js_le (or_number (Number a) plus_zero) plus_zero"
    and av: "truthy (optional (OrderFormProps.available props))"
    by (simp_all add: checkButtonIsDisabled_def Let_def render_safeAmount_def)
  from le show t: "truthy_number (Number a)"
    by (auto simp: or_number_def plus_zero_def signed_value_def split: if_splits)
  with le show "\<not> js_le (Number a) plus_zero" by (simp add: or_number_def)
  from av show "\<exists>av. OrderFormProps.available props = Some av \<and> truthy_number av"
    by (cases "OrderFormProps.available props") (simp_all add: optional_def)
qed

lemma precision_limited_2: "precision_limited 2 (js ''2'')"
  by (simp add: precision_limited_def js_def is_dot_def is_digit_or_minus_def is_digit_def)



text \<open>
  C3. \<open>handleAmountChange\<close> cleans its input with \<open>cleanPositiveFloatInput\<close> and tests
  the result against the pattern built from the ask precision \<open>n\<close>, which accepts
  digits and hyphens followed, possibly, by a dot and at most \<open>max n 1\<close> more of them.
  If the cleaned value matches, it becomes the amount and nothing else changes; if not,
  the state is left as it is.
\<close>

theorem handleAmountChange_result:
  "(rx_match (condition (currentMarketAskPrecision s)) (cleanPositiveFloatInput h v)
      \<longleftrightarrow> precision_limited (currentMarketAskPrecision s) (cleanPositiveFloatInput h v))
   \<and> handleAmountChange h v s =
       (if precision_limited (currentMarketAskPrecision s) (cleanPositiveFloatInput h v)
        then s\<lparr>amount := cleanPositiveFloatInput h v\<rparr> else s)"
  by (simp add: handleAmountChange_def condition_iff)

text \<open>
  At precision \<open>2\<close>, with a cleaner that returns its input, \<open>1.5\<close> replaces the amount
  \<open>2\<close> and \<open>1.555\<close> does not.
\<close>

theorem handleAmountChange_result_witness:
  "amount
     (handleAmountChange
        \<lparr> getTotalPrice = (\<lambda>a ps. Finite False 6), cleanPositiveFloatInput = (\<lambda>w. w),
          Decimal_format = (\<lambda>x n. js ''6.00'') \<rparr>
        (js ''1.5'')
        \<lparr> orderType = NodeString (js ''Market''), amount = js ''2'', price = [],
          priceMarket = Finite False 3, currentMarketAskPrecision = 2,
          currentMarketBidPrecision = 2, amountFocused = False, priceFocused = False \<rparr>)
     = js ''1.5''
   \<and> amount
       (handleAmountChange
          \<lparr> getTotalPrice = (\<lambda>a ps. Finite False 6), cleanPositiveFloatInput = (\<lambda>w. w),
            Decimal_format = (\<lambda>x n. js ''6.00'') \<rparr>
          (js ''1.555'')
          \<lparr> orderType = NodeString (js ''Market''), amount = js ''2'', price = [],
            priceMarket = Finite False 3, currentMarketAskPrecision = 2,
            currentMarketBidPrecision = 2, amountFocused = False, priceFocused = False \<rparr>)
     = js ''2''"
  using
    handleAmountChange_result
      [of "\<lparr> orderType = NodeString (js ''Market''), amount = js ''2'', price = [],
             priceMarket = Finite False 3, currentMarketAskPrecision = 2,
             currentMarketBidPrecision = 2, amountFocused = False, priceFocused = False \<rparr>"
          "\<lparr> getTotalPrice = (\<lambda>a ps. Finite False 6), cleanPositiveFloatInput = (\<lambda>w. w),
             Decimal_format = (\<lambda>x n. js ''6.00'') \<rparr>"
          "js ''1.5''"]
    handleAmountChange_result
      [of "\<lparr> orderType = NodeString (js ''Market''), amount = js ''2'', price = [],
             priceMarket = Finite False 3, currentMarketAskPrecision = 2,
             currentMarketBidPrecision = 2, amountFocused = False, priceFocused = False \<rparr>"
          "\<lparr> getTotalPrice = (\<lambda>a ps. Finite False 6), cleanPositiveFloatInput = (\<lambda>w. w),
             Decimal_format = (\<lambda>x n. js ''6.00'') \<rparr>"
          "js ''1.555''"]
  by (simp add: precision_limited_def js_def is_dot_def is_digit_or_minus_def is_digit_def)

text \<open>
  C4. When the amount string is \<open>0\<close>, \<open>checkButtonIsDisabled\<close> returns true for the
  safe amount that \<open>render\<close> computes, whatever the props, the rest of the state and
  the other arguments are, and the button that \<open>render\<close> shows is disabled.
\<close>

theorem checkButtonIsDisabled_amount_0:
  "amount s = js ''0'' \<Longrightarrow>
     checkButtonIsDisabled (render_safeAmount (amount s)) safePrice' price' props s
     \<and> buttonDisabled (render h props s)"
  by (simp add: checkButtonIsDisabled_def render_buttonDisabled render_safeAmount_def Number_0
      or_number_def plus_zero_def signed_value_def)

theorem checkButtonIsDisabled_amount_0_witness:
  "buttonDisabled
     (render
        \<lparr> getTotalPrice = (\<lambda>a ps. Finite False 0), cleanPositiveFloatInput = (\<lambda>w. w),
          Decimal_format = (\<lambda>x n. js ''0.00'') \<rparr>
        \<lparr> OrderFormProps.priceMarket = Finite False 3, priceLimit = None, type = buy,
          available = Some (Finite False 10), currentMarketAskPrecision = 2,
          currentMarketBidPrecision = 2, disabled = None,
          proposals = [[js ''3'', js ''10'']] \<rparr>
        \<lparr> orderType = NodeString (js ''Market''), amount = js ''0'', price = [],
          priceMarket = Finite False 3, currentMarketAskPrecision = 2,
          currentMarketBidPrecision = 2, amountFocused = False, priceFocused = False \<rparr>)"
  using
    checkButtonIsDisabled_amount_0
      [of "\<lparr> orderType = NodeString (js ''Market''), amount = js ''0'', price = [],
             priceMarket = Finite False 3, currentMarketAskPrecision = 2,
             currentMarketBidPrecision = 2, amountFocused = False, priceFocused = False \<rparr>"
          "Finite False 3" "[]"
          "\<lparr> OrderFormProps.priceMarket = Finite False 3, priceLimit = None, type = buy,
             available = Some (Finite False 10), currentMarketAskPrecision = 2,
             currentMarketBidPrecision = 2, disabled = None,
             proposals = [[js ''3'', js ''10'']] \<rparr>"
          "\<lparr> getTotalPrice = (\<lambda>a ps. Finite False 0), cleanPositiveFloatInput = (\<lambda>w. w),
             Decimal_format = (\<lambda>x n. js ''0.00'') \<rparr>"]
  by simp

text \<open>
  C5, as the code has it. Every order that the form submits, that is every order that
  \<open>handleSubmit\<close> hands to \<open>onSubmit\<close> in a state of the form in which the submit
  button is enabled, has the type of the form as its side, \<open>Market\<close> as its order type,
  the amount string of the state as its amount, which is a decimal string whose number
  is positive, and the number \<open>available\<close> of the props. Its price is the number
  \<open>priceMarket\<close> of the state. For any other order type than \<open>Market\<close> \<open>handleSubmit\<close>
  passes the price string of the state.
\<close>

theorem handleSubmit_order:
  "(form_state h s \<and> \<not> buttonDisabled (render h props s) \<longrightarrow>
      (\<exists>order a.
         fst (handleSubmit props s) = [order]
         \<and> OrderProps.type order = OrderFormProps.type props
         \<and> OrderProps.orderType order = NodeString (js ''Market'')
         \<and> OrderProps.amount order = amount s
         \<and> decimal_string (amount s)
         \<and> truthy_number (Number (amount s))
         \<and> \<not> js_le (Number (amount s)) plus_zero
         \<and> OrderProps.price order = VNumber (priceMarket s)
         \<and> OrderFormProps.available props = Some a
         \<and> truthy_number a
         \<and> OrderProps.available order = a))
   \<and> (orderType s \<noteq> NodeString (js ''Market'') \<longrightarrow>
        OrderProps.price (hd (fst (handleSubmit props s))) = VString (price s))"
proof (intro conjI impI)
  assume a: "form_state h s \<and> \<not> buttonDisabled (render h props s)"
  then have inv: "orderType s = NodeString (js ''Market'')"
    "list_all (\<lambda>c. is_digit_or_minus c \<or> is_dot c) (amount s)"
    using form_state_invariant [of h s] by simp_all
  from a have en: "\<not> checkButtonIsDisabled (render_safeAmount (amount s))
      (render_safePrice (getTotalPrice h (amount s) (proposals props)) (amount s) (priceMarket s))
      (price s) props s"
    by (simp add: render_buttonDisabled)
  note f = enabled_facts [OF en]
  from f(3) obtain av where av: "OrderFormProps.available props = Some av" "truthy_number av"
    by blast
  have d: "decimal_string (amount s)" using inv(2) f(1) f(2) by (rule Number_amount)
  let ?order = "hd (fst (handleSubmit props s))"
  have "fst (handleSubmit props s) = [?order]
         \<and> OrderProps.type ?order = OrderFormProps.type props
         \<and> OrderProps.orderType ?order = NodeString (js ''Market'')
         \<and> OrderProps.amount ?order = amount s
         \<and> decimal_string (amount s)
         \<and> truthy_number (Number (amount s))
         \<and> \<not> js_le (Number (amount s)) plus_zero
         \<and> OrderProps.price ?order = VNumber (priceMarket s)
         \<and> OrderFormProps.available props = Some av
         \<and> truthy_number av
         \<and> OrderProps.available ?order = av"
    using inv(1) av d f(1) f(2) by (simp add: handleSubmit_def or_number_def)
  then show "\<exists>order a.
         fst (handleSubmit props s) = [order]
         \<and> OrderProps.type order = OrderFormProps.type props
         \<and> OrderProps.orderType order = NodeString (js ''Market'')
         \<and> OrderProps.amount order = amount s
         \<and> decimal_string (amount s)
         \<and> truthy_number (Number (amount s))
         \<and> \<not> js_le (Number (amount s)) plus_zero
         \<and> OrderProps.price order = VNumber (priceMarket s)
         \<and> OrderFormProps.available props = Some a
         \<and> truthy_number a
         \<and> OrderProps.available order = a" by blast
next
  assume "orderType s \<noteq> NodeString (js ''Market'')"
  then show "OrderProps.price (hd (fst (handleSubmit props s))) = VString (price s)"
    by (simp add: handleSubmit_def)
qed

text \<open>
  The form as constructed, with the amount \<open>2\<close> typed in, \<open>10\<close> available and a total
  of \<open>6\<close>, has its button enabled and submits a market order at the number \<open>3\<close>; a
  state with order type \<open>Limit\<close> and the price \<open>3\<close> would submit the string \<open>3\<close>.
\<close>

theorem handleSubmit_order_witness:
  "form_state
     \<lparr> getTotalPrice = (\<lambda>a ps. Finite False 6), cleanPositiveFloatInput = (\<lambda>w. w),
       Decimal_format = (\<lambda>x n. js ''6.00'') \<rparr>
     (handleAmountChange
        \<lparr> getTotalPrice = (\<lambda>a ps. Finite False 6), cleanPositiveFloatInput = (\<lambda>w. w),
          Decimal_format = (\<lambda>x n. js ''6.00'') \<rparr>
        (js ''2'')
        (constructor
           \<lparr> OrderFormProps.priceMarket = Finite False 3, priceLimit = None, type = buy,
             available = Some (Finite False 10), currentMarketAskPrecision = 2,
             currentMarketBidPrecision = 2, disabled = None,
             proposals = [[js ''3'', js ''10'']] \<rparr>))
   \<and> \<not> buttonDisabled
       (render
          \<lparr> getTotalPrice = (\<lambda>a ps. Finite False 6), cleanPositiveFloatInput = (\<lambda>w. w),
            Decimal_format = (\<lambda>x n. js ''6.00'') \<rparr>
          \<lparr> OrderFormProps.priceMarket = Finite False 3, priceLimit = None, type = buy,
            available = Some (Finite False 10), currentMarketAskPrecision = 2,
            currentMarketBidPrecision = 2, disabled = None,
            proposals = [[js ''3'', js ''10'']] \<rparr>
          (handleAmountChange
             \<lparr> getTotalPrice = (\<lambda>a ps. Finite False 6), cleanPositiveFloatInput = (\<lambda>w. w),
               Decimal_format = (\<lambda>x n. js ''6.00'') \<rparr>
             (js ''2'')
             (constructor
                \<lparr> OrderFormProps.priceMarket = Finite False 3, priceLimit = None, type = buy,
                  available = Some (Finite False 10), currentMarketAskPrecision = 2,
                  currentMarketBidPrecision = 2, disabled = None,
                  proposals = [[js ''3'', js ''10'']] \<rparr>)))
   \<and> fst (handleSubmit
          \<lparr> OrderFormProps.priceMarket = Finite False 3, priceLimit = None, type = buy,
            available = Some (Finite False 10), currentMarketAskPrecision = 2,
            currentMarketBidPrecision = 2, disabled = None,
            proposals = [[js ''3'', js ''10'']] \<rparr>
          (handleAmountChange
             \<lparr> getTotalPrice = (\<lambda>a ps. Finite False 6), cleanPositiveFloatInput = (\<lambda>w. w),
               Decimal_format = (\<lambda>x n. js ''6.00'') \<rparr>
             (js ''2'')
             (constructor
                \<lparr> OrderFormProps.priceMarket = Finite False 3, priceLimit = None, type = buy,
                  available = Some (Finite False 10), currentMarketAskPrecision = 2,
                  currentMarketBidPrecision = 2, disabled = None,
                  proposals = [[js ''3'', js ''10'']] \<rparr>)))
     = [\<lparr> OrderProps.type = buy, orderType = NodeString (js ''Market''), amount = js ''2'',
          price = VNumber (Finite False 3), available = Finite False 10 \<rparr>]
   \<and> decimal_string (js ''2'')
   \<and> Number (js ''2'') = Finite False 2
   \<and> OrderProps.price
       (hd (fst (handleSubmit
                   \<lparr> OrderFormProps.priceMarket = Finite False 3, priceLimit = None,
                     type = sell, available = Some (Finite False 10),
                     currentMarketAskPrecision = 2, currentMarketBidPrecision = 2,
                     disabled = None, proposals = [[js ''3'', js ''10'']] \<rparr>
                   \<lparr> orderType = NodeString (js ''Limit''), amount = js ''2'',
                     price = js ''3'', priceMarket = Finite False 3,
                     currentMarketAskPrecision = 2, currentMarketBidPrecision = 2,
                     amountFocused = False, priceFocused = False \<rparr>)))
     = VString (js ''3'')"
proof -
  let ?H = "\<lparr> getTotalPrice = (\<lambda>a ps. Finite False 6), cleanPositiveFloatInput = (\<lambda>w. w),
              Decimal_format = (\<lambda>x n. js ''6.00'') \<rparr>"
  let ?P = "\<lparr> OrderFormProps.priceMarket = Finite False 3, priceLimit = None, type = buy,
              available = Some (Finite False 10), currentMarketAskPrecision = 2,
              currentMarketBidPrecision = 2, disabled = None,
              proposals = [[js ''3'', js ''10'']] \<rparr>"
  let ?Q = "\<lparr> OrderFormProps.priceMarket = Finite False 3, priceLimit = None, type = sell,
              available = Some (Finite False 10), currentMarketAskPrecision = 2,
              currentMarketBidPrecision = 2, disabled = None,
              proposals = [[js ''3'', js ''10'']] \<rparr>"
  let ?s = "handleAmountChange ?H (js ''2'') (constructor ?P)"
  let ?t = "\<lparr> orderType = NodeString (js ''Limit''), amount = js ''2'', price = js ''3'',
              priceMarket = Finite False 3, currentMarketAskPrecision = 2,
              currentMarketBidPrecision = 2, amountFocused = False, priceFocused = False \<rparr>"
  have fs: "form_state ?H ?s" by (intro form_state.intros)
  have s: "?s = \<lparr> orderType = NodeString (js ''Market''), amount = js ''2'', price = [],
                   priceMarket = Finite False 3, currentMarketAskPrecision = 2,
                   currentMarketBidPrecision = 2, amountFocused = False,
                   priceFocused = False \<rparr>"
    by (simp add: handleAmountChange_def condition_iff precision_limited_2 constructor_def
        or_precision_def)
  have en: "\<not> buttonDisabled (render ?H ?P ?s)"
    unfolding s
    by (simp add: render_buttonDisabled checkButtonIsDisabled_def render_safeAmount_def
        render_safePrice_def Number_2 or_number_def finite_result_3 plus_zero_def
        signed_value_def optional_def Market_neq_Limit)
  note t = handleSubmit_order [where h = ?H and s = ?s and props = ?P]
  from t [unfolded s] fs [unfolded s] en [unfolded s]
  have d: "decimal_string (js ''2'')" by auto
  have b: "fst (handleSubmit ?P ?s)
      = [\<lparr> OrderProps.type = buy, orderType = NodeString (js ''Market''), amount = js ''2'',
           price = VNumber (Finite False 3), available = Finite False 10 \<rparr>]"
    unfolding s by (simp add: handleSubmit_def or_number_def)
  from handleSubmit_order [where h = ?H and s = ?t and props = ?Q] Limit_neq_Market
  have c: "OrderProps.price (hd (fst (handleSubmit ?Q ?t))) = VString (js ''3'')" by simp
  from fs en b c d show ?thesis by (simp add: Number_2)
qed

text \<open>
  C5 as it is worded fails for a market order, the order type of every state of the
  form: the form as constructed, with the amount \<open>2\<close> typed in, submits an order whose
  price is the number \<open>priceMarket\<close>, not a string.
\<close>

theorem handleSubmit_order_counterexample:
  "\<not> is_string
       (OrderProps.price
          (hd (fst (handleSubmit
                      \<lparr> OrderFormProps.priceMarket = Finite False 3, priceLimit = None,
                        type = buy, available = Some (Finite False 10),
                        currentMarketAskPrecision = 2, currentMarketBidPrecision = 2,
                        disabled = None, proposals = [[js ''3'', js ''10'']] \<rparr>
                      ((constructor
                          \<lparr> OrderFormProps.priceMarket = Finite False 3, priceLimit = None,
                            type = buy, available = Some (Finite False 10),
                            currentMarketAskPrecision = 2, currentMarketBidPrecision = 2,
                            disabled = None, proposals = [[js ''3'', js ''10'']] \<rparr>)
                         \<lparr>amount := js ''2''\<rparr>)))))"
  by (simp add: handleSubmit_def constructor_def)

text \<open>
  C7. \<open>handleSubmit\<close> calls \<open>onSubmit\<close> exactly once, with the order built from the
  props and the state it is called in. Afterwards the amount and the price of the state
  are the empty string, and the order type, the market price, the two precisions and
  the two focus flags are what they were.
\<close>

theorem handleSubmit_effect:
  "fst (handleSubmit props s) =
     [\<lparr> OrderProps.type = OrderFormProps.type props,
        OrderProps.orderType = orderType s,
        OrderProps.amount = amount s,
        OrderProps.price =
          (if orderType s = NodeString (js ''Market'') then VNumber (priceMarket s)
           else VString (price s)),
        OrderProps.available =
          (case OrderFormProps.available props of
             None \<Rightarrow> plus_zero
           | Some a \<Rightarrow> or_number a plus_zero) \<rparr>]
   \<and> length (fst (handleSubmit props s)) = 1
   \<and> amount (snd (handleSubmit props s)) = []
   \<and> price (snd (handleSubmit props s)) = []
   \<and> orderType (snd (handleSubmit props s)) = orderType s
   \<and> priceMarket (snd (handleSubmit props s)) = priceMarket s
   \<and> currentMarketAskPrecision (snd (handleSubmit props s)) = currentMarketAskPrecision s
   \<and> currentMarketBidPrecision (snd (handleSubmit props s)) = currentMarketBidPrecision s
   \<and> amountFocused (snd (handleSubmit props s)) = amountFocused s
   \<and> priceFocused (snd (handleSubmit props s)) = priceFocused s"
  by (simp add: handleSubmit_def)

text \<open>
  C9. When the prop \<open>available\<close> is undefined or zero, \<open>checkButtonIsDisabled\<close>
  returns true whatever its other arguments are, and the button that \<open>render\<close> shows
  is disabled.
\<close>

theorem checkButtonIsDisabled_unavailable:
  "OrderFormProps.available props = None
     \<or> OrderFormProps.available props = Some (Finite False 0)
     \<or> OrderFormProps.available props = Some (Finite True 0) \<Longrightarrow>
   checkButtonIsDisabled safeAmount' safePrice' price' props s
   \<and> buttonDisabled (render h props s)"
  by (auto simp add: checkButtonIsDisabled_def render_buttonDisabled optional_def)

text \<open>
  A market order for the amount \<open>2\<close> at the price \<open>3\<close> cannot be sent when nothing is
  said to be available, nor when \<open>0\<close> is.
\<close>

theorem checkButtonIsDisabled_unavailable_witness:
  "checkButtonIsDisabled (Finite False 2) (Finite False 3) []
     \<lparr> OrderFormProps.priceMarket = Finite False 3, priceLimit = None, type = buy,
       available = None, currentMarketAskPrecision = 2,
       currentMarketBidPrecision = 2, disabled = None,
       proposals = [[js ''3'', js ''10'']] \<rparr>
     \<lparr> orderType = NodeString (js ''Market''), amount = js ''2'', price = [],
       priceMarket = Finite False 3, currentMarketAskPrecision = 2,
       currentMarketBidPrecision = 2, amountFocused = False, priceFocused = False \<rparr>
   \<and> checkButtonIsDisabled (Finite False 2) (Finite False 3) []
       \<lparr> OrderFormProps.priceMarket = Finite False 3, priceLimit = None, type = buy,
         available = Some (Finite False 0), currentMarketAskPrecision = 2,
         currentMarketBidPrecision = 2, disabled = None,
         proposals = [[js ''3'', js ''10'']] \<rparr>
       \<lparr> orderType = NodeString (js ''Market''), amount = js ''2'', price = [],
         priceMarket = Finite False 3, currentMarketAskPrecision = 2,
         currentMarketBidPrecision = 2, amountFocused = False, priceFocused = False \<rparr>"
  using
    checkButtonIsDisabled_unavailable
      [of "\<lparr> OrderFormProps.priceMarket = Finite False 3, priceLimit = None, type = buy,
             available = None, currentMarketAskPrecision = 2,
             currentMarketBidPrecision = 2, disabled = None,
             proposals = [[js ''3'', js ''10'']] \<rparr>"
          "Finite False 2" "Finite False 3" "[]"
          "\<lparr> orderType = NodeString (js ''Market''), amount = js ''2'', price = [],
             priceMarket = Finite False 3, currentMarketAskPrecision = 2,
             currentMarketBidPrecision = 2, amountFocused = False, priceFocused = False \<rparr>"]
    checkButtonIsDisabled_unavailable
      [of "\<lparr> OrderFormProps.priceMarket = Finite False 3, priceLimit = None, type = buy,
             available = Some (Finite False 0), currentMarketAskPrecision = 2,
             currentMarketBidPrecision = 2, disabled = None,
             proposals = [[js ''3'', js ''10'']] \<rparr>"
          "Finite False 2" "Finite False 3" "[]"
          "\<lparr> orderType = NodeString (js ''Market''), amount = js ''2'', price = [],
             priceMarket = Finite False 3, currentMarketAskPrecision = 2,
             currentMarketBidPrecision = 2, amountFocused = False, priceFocused = False \<rparr>"]
  by simp

text \<open>
  C10. In \<open>render\<close> the unit price \<open>safePrice\<close> is the market price of the state
  whenever \<open>totalPrice / Number(amount)\<close> is \<open>NaN\<close> or a zero. For every other quotient,
  an infinity among them, it is the quotient. The price that the form shows is
  \<open>Decimal.format\<close> of \<open>safePrice\<close> at the bid precision.
\<close>

theorem safePrice_fallback:
  "(js_div totalPrice (Number amount') = NaN
      \<or> js_div totalPrice (Number amount') = Finite False 0
      \<or> js_div totalPrice (Number amount') = Finite True 0
    \<longrightarrow> render_safePrice totalPrice amount' priceMarket' = priceMarket')
   \<and> (js_div totalPrice (Number amount') \<noteq> NaN
      \<and> js_div totalPrice (Number amount') \<noteq> Finite False 0
      \<and> js_div totalPrice (Number amount') \<noteq> Finite True 0
    \<longrightarrow> render_safePrice totalPrice amount' priceMarket' = js_div totalPrice (Number amount'))
   \<and> (js_div totalPrice (Number amount') = Infinity sg
    \<longrightarrow> render_safePrice totalPrice amount' priceMarket' = Infinity sg)
   \<and> priceContent (render h props s) =
       handleSetValue
         (VString (Decimal_format h
            (Some (render_safePrice (getTotalPrice h (amount s) (proposals props)) (amount s)
                     (priceMarket s)))
            (currentMarketBidPrecision s)))
         (js ''0'')"
  by (auto simp add: render_safePrice_def or_number_def render_priceContent truthy_number_iff)

text \<open>
  With an empty amount and a total of \<open>0\<close> the quotient is \<open>NaN\<close> and the market price
  \<open>7\<close> is shown; with a total of \<open>5\<close> the quotient is \<open>Infinity\<close> and stays; with the
  amount \<open>0\<close> and a total of \<open>0\<close> the market price is shown again; and \<open>6 / 2\<close> is
  \<open>3\<close>.
\<close>

theorem safePrice_fallback_witness:
  "js_div plus_zero (Number []) = NaN
   \<and> render_safePrice plus_zero [] (Finite False 7) = Finite False 7
   \<and> js_div (Finite False 5) (Number []) = Infinity False
   \<and> render_safePrice (Finite False 5) [] (Finite False 7) = Infinity False
   \<and> render_safePrice plus_zero (js ''0'') (Finite False 7) = Finite False 7
   \<and> render_safePrice (Finite False 6) (js ''2'') (Finite False 7) = Finite False 3"
  using
    safePrice_fallback [of plus_zero "[]" "Finite False 7"]
    safePrice_fallback [of "Finite False 5" "[]" "Finite False 7" False]
    safePrice_fallback [of plus_zero "js ''0''" "Finite False 7"]
    safePrice_fallback [of "Finite False 6" "js ''2''" "Finite False 7"]
  by (simp add: Number_empty Number_0 Number_2 plus_zero_def finite_result_3)

end
